theory Spec2Isabelle
  imports Complex_Main
begin

section \<open>The in-memory gem repository of \<^verbatim>\<open>repositories/gem_repository.py\<close>\<close>

subsection \<open>Exceptions\<close>

text \<open>
  The exceptions the module can raise. \<open>ValueError\<close> carries its message;
  \<open>AttributeError\<close> carries the attribute that was read on \<open>None\<close> (Python's
  message is "'NoneType' object has no attribute ..." with that attribute);
  \<open>UnboundLocalError\<close> carries the local variable read before its assignment.
\<close>

datatype py_exception =
    ValueError string
  | AttributeError string
  | UnboundLocalError string

text \<open>
  The classes an exception is an instance of, most specific first, as in Python's
  built-in hierarchy: \<open>UnboundLocalError\<close> is a subclass of \<open>NameError\<close>.
\<close>

fun exception_classes :: "py_exception \<Rightarrow> string list" where
  "exception_classes (ValueError m) = [''ValueError'', ''Exception'', ''BaseException'']"
| "exception_classes (AttributeError a) = [''AttributeError'', ''Exception'', ''BaseException'']"
| "exception_classes (UnboundLocalError v) =
     [''UnboundLocalError'', ''NameError'', ''Exception'', ''BaseException'']"

definition isinstance :: "py_exception \<Rightarrow> string \<Rightarrow> bool" where
  "isinstance e cls = (cls \<in> set (exception_classes e))"

subsection \<open>Formatting an integer, as \<^verbatim>\<open>str(int)\<close> and the f-string do\<close>

definition digit_char :: "nat \<Rightarrow> char" where
  "digit_char d = ''0123456789'' ! d"

fun str_nat :: "nat \<Rightarrow> string" where
  "str_nat n = (if n < 10 then [digit_char n] else str_nat (n div 10) @ [digit_char (n mod 10)])"

declare str_nat.simps [simp del]

definition str_int :: "int \<Rightarrow> string" where
  "str_int i = (if i < 0 then CHR ''-'' # str_nat (nat (- i)) else str_nat (nat i))"

text \<open>The message of every update operation: \<^verbatim>\<open>f'hidden gem with id {hidden_gem_id} not found'\<close>.\<close>

definition not_found_message :: "int \<Rightarrow> string" where
  "not_found_message hidden_gem_id = ''hidden gem with id '' @ str_int hidden_gem_id @ '' not found''"

subsection \<open>The data model\<close>

text \<open>
  Modelled from the spec: the class \<open>HiddenGem\<close> lives in \<^verbatim>\<open>models/hidden_gem.py\<close>, which
  is not among the sources. The spec's GemRecord has an identifier, name, latitude,
  longitude, category, visit count, creator, website link, accessibility flags, image
  references and reviews. The field names are the attributes the repository reads and
  writes; their order is the order of the constructor's positional arguments in
  \<open>create_hidden_gem\<close>. Floats (\<open>'f\<close>) and reviews (\<open>'r\<close>) are opaque to the repository:
  it stores and returns them and computes nothing on them.
\<close>

record ('f, 'r) HiddenGem =
  name :: string
  gem_id :: int
  latitude :: 'f
  longitude :: 'f
  gem_type :: string
  times_visited :: int
  user_created :: string
  website_link :: string
  accessibility :: "bool list"
  gem_images :: "string list"
  reviews :: "'r list"

text \<open>
  Modelled from the spec: the constructor \<open>HiddenGem(name, new_id, latitude, ...)\<close> builds
  a record "with all fields as given".
\<close>

definition HiddenGem_init ::
  "string \<Rightarrow> int \<Rightarrow> 'f \<Rightarrow> 'f \<Rightarrow> string \<Rightarrow> int \<Rightarrow> string \<Rightarrow> string \<Rightarrow> bool list \<Rightarrow> string list \<Rightarrow> 'r list
    \<Rightarrow> ('f, 'r) HiddenGem" where
  "HiddenGem_init name' new_id latitude' longitude' gem_type' times_visited' user_created'
      website_link' accessibility' gem_images' reviews' =
     \<lparr>name = name', gem_id = new_id, latitude = latitude', longitude = longitude',
      gem_type = gem_type', times_visited = times_visited', user_created = user_created',
      website_link = website_link', accessibility = accessibility',
      gem_images = gem_images', reviews = reviews'\<rparr>"

text \<open>
  The repository object: its only attribute is the dict \<open>_db\<close> from identifiers to gems.
  Every key holds the object its own \<open>create_hidden_gem\<close> call constructed, so the
  in-place assignment to an attribute of the object under a key is the update of that
  entry of the map.
\<close>

record ('f, 'r) GemRepository =
  db :: "int \<rightharpoonup> ('f, 'r) HiddenGem"

text \<open>
  An operation returns its result, or the exception it raised, together with the
  repository as the call leaves it.
\<close>

type_synonym ('a, 'f, 'r) outcome = "(py_exception + 'a) \<times> ('f, 'r) GemRepository"

text \<open>\<^verbatim>\<open>__init__\<close>: the empty dict.\<close>

definition GemRepository_init :: "('f, 'r) GemRepository" where
  "GemRepository_init = \<lparr>db = Map.empty\<rparr>"

subsection \<open>Listing, lookup, creation, clearing\<close>

definition get_all_hidden_gems ::
  "('f, 'r) GemRepository \<Rightarrow> (int \<rightharpoonup> ('f, 'r) HiddenGem, 'f, 'r) outcome" where
  "get_all_hidden_gems self = (Inr (db self), self)"

definition get_hidden_gem_by_id ::
  "('f, 'r) GemRepository \<Rightarrow> int \<Rightarrow> (('f, 'r) HiddenGem option, 'f, 'r) outcome" where
  "get_hidden_gem_by_id self hidden_gem_id = (Inr (db self hidden_gem_id), self)"

text \<open>
  \<^verbatim>\<open>randint(a, b)\<close> returns some integer \<open>N\<close> with \<open>a \<le> N \<le> b\<close>. The draw is an
  argument of the model of \<open>create_hidden_gem\<close>; \<open>randint\<close> says which draws are possible.
\<close>

definition randint :: "int \<Rightarrow> int \<Rightarrow> int \<Rightarrow> bool" where
  "randint a b N = (a \<le> N \<and> N \<le> b)"

definition create_hidden_gem ::
  "('f, 'r) GemRepository \<Rightarrow> int \<Rightarrow> string \<Rightarrow> 'f \<Rightarrow> 'f \<Rightarrow> string \<Rightarrow> int \<Rightarrow> string \<Rightarrow> string
    \<Rightarrow> bool list \<Rightarrow> string list \<Rightarrow> 'r list \<Rightarrow> (('f, 'r) HiddenGem, 'f, 'r) outcome" where
  "create_hidden_gem self new_id name' latitude' longitude' gem_type' times_visited'
      user_created' website_link' accessibility' gem_images' reviews' =
     (let hidden_gem = HiddenGem_init name' new_id latitude' longitude' gem_type'
            times_visited' user_created' website_link' accessibility' gem_images' reviews'
      in (Inr hidden_gem, self\<lparr>db := (db self)(new_id \<mapsto> hidden_gem)\<rparr>))"

definition clear_db :: "('f, 'r) GemRepository \<Rightarrow> (unit, 'f, 'r) outcome" where
  "clear_db self = (Inr (), self\<lparr>db := Map.empty\<rparr>)"

subsection \<open>Field getters\<close>

text \<open>
  Each getter reads an attribute of \<^verbatim>\<open>self._db.get(hidden_gem_id)\<close>, which is \<open>None\<close>
  for a missing key: the attribute access then raises \<open>AttributeError\<close>.
\<close>

definition get_name :: "('f, 'r) GemRepository \<Rightarrow> int \<Rightarrow> (string, 'f, 'r) outcome" where
  "get_name self hidden_gem_id =
     (case db self hidden_gem_id of
        None \<Rightarrow> (Inl (AttributeError ''name''), self)
      | Some hidden_gem \<Rightarrow> (Inr (name hidden_gem), self))"

definition get_cordinates :: "('f, 'r) GemRepository \<Rightarrow> int \<Rightarrow> ('f \<times> 'f, 'f, 'r) outcome" where
  "get_cordinates self hidden_gem_id =
     (case db self hidden_gem_id of
        None \<Rightarrow> (Inl (AttributeError ''latitude''), self)
      | Some hidden_gem \<Rightarrow> (Inr (latitude hidden_gem, longitude hidden_gem), self))"

definition get_gem_type :: "('f, 'r) GemRepository \<Rightarrow> int \<Rightarrow> (string, 'f, 'r) outcome" where
  "get_gem_type self hidden_gem_id =
     (case db self hidden_gem_id of
        None \<Rightarrow> (Inl (AttributeError ''gem_type''), self)
      | Some hidden_gem \<Rightarrow> (Inr (gem_type hidden_gem), self))"

definition get_times_visited :: "('f, 'r) GemRepository \<Rightarrow> int \<Rightarrow> (int, 'f, 'r) outcome" where
  "get_times_visited self hidden_gem_id =
     (case db self hidden_gem_id of
        None \<Rightarrow> (Inl (AttributeError ''times_visited''), self)
      | Some hidden_gem \<Rightarrow> (Inr (times_visited hidden_gem), self))"

definition get_user_created :: "('f, 'r) GemRepository \<Rightarrow> int \<Rightarrow> (string, 'f, 'r) outcome" where
  "get_user_created self hidden_gem_id =
     (case db self hidden_gem_id of
        None \<Rightarrow> (Inl (AttributeError ''user_created''), self)
      | Some hidden_gem \<Rightarrow> (Inr (user_created hidden_gem), self))"

definition get_website_link :: "('f, 'r) GemRepository \<Rightarrow> int \<Rightarrow> (string, 'f, 'r) outcome" where
  "get_website_link self hidden_gem_id =
     (case db self hidden_gem_id of
        None \<Rightarrow> (Inl (AttributeError ''website_link''), self)
      | Some hidden_gem \<Rightarrow> (Inr (website_link hidden_gem), self))"

definition get_accessibility :: "('f, 'r) GemRepository \<Rightarrow> int \<Rightarrow> (bool list, 'f, 'r) outcome" where
  "get_accessibility self hidden_gem_id =
     (case db self hidden_gem_id of
        None \<Rightarrow> (Inl (AttributeError ''accessibility''), self)
      | Some hidden_gem \<Rightarrow> (Inr (accessibility hidden_gem), self))"

definition get_gem_images :: "('f, 'r) GemRepository \<Rightarrow> int \<Rightarrow> (string list, 'f, 'r) outcome" where
  "get_gem_images self hidden_gem_id =
     (case db self hidden_gem_id of
        None \<Rightarrow> (Inl (AttributeError ''gem_images''), self)
      | Some hidden_gem \<Rightarrow> (Inr (gem_images hidden_gem), self))"

definition get_reviews :: "('f, 'r) GemRepository \<Rightarrow> int \<Rightarrow> ('r list, 'f, 'r) outcome" where
  "get_reviews self hidden_gem_id =
     (case db self hidden_gem_id of
        None \<Rightarrow> (Inl (AttributeError ''reviews''), self)
      | Some hidden_gem \<Rightarrow> (Inr (reviews hidden_gem), self))"

subsection \<open>Field updates\<close>

text \<open>
  Each update looks the gem up, raises \<open>ValueError\<close> when \<^verbatim>\<open>not hidden_gem\<close>, assigns the
  attribute and returns the gem. \<^verbatim>\<open>not hidden_gem\<close> holds for \<open>None\<close>; an instance of
  \<open>HiddenGem\<close> is truthy (modelled from the spec: a plain record class, with no
  \<^verbatim>\<open>__bool__\<close> or \<^verbatim>\<open>__len__\<close> of its own).
\<close>

definition update_name ::
  "('f, 'r) GemRepository \<Rightarrow> int \<Rightarrow> string \<Rightarrow> (('f, 'r) HiddenGem, 'f, 'r) outcome" where
  "update_name self hidden_gem_id name' =
     (case db self hidden_gem_id of
        None \<Rightarrow> (Inl (ValueError (not_found_message hidden_gem_id)), self)
      | Some hidden_gem \<Rightarrow>
          (let hidden_gem' = hidden_gem\<lparr>name := name'\<rparr>
           in (Inr hidden_gem', self\<lparr>db := (db self)(hidden_gem_id \<mapsto> hidden_gem')\<rparr>)))"

definition update_cordinates ::
  "('f, 'r) GemRepository \<Rightarrow> int \<Rightarrow> 'f \<Rightarrow> 'f \<Rightarrow> (('f, 'r) HiddenGem, 'f, 'r) outcome" where
  "update_cordinates self hidden_gem_id latitude' longitude' =
     (case db self hidden_gem_id of
        None \<Rightarrow> (Inl (ValueError (not_found_message hidden_gem_id)), self)
      | Some hidden_gem \<Rightarrow>
          (let hidden_gem' = hidden_gem\<lparr>latitude := latitude', longitude := longitude'\<rparr>
           in (Inr hidden_gem', self\<lparr>db := (db self)(hidden_gem_id \<mapsto> hidden_gem')\<rparr>)))"

definition update_gem_type ::
  "('f, 'r) GemRepository \<Rightarrow> int \<Rightarrow> string \<Rightarrow> (('f, 'r) HiddenGem, 'f, 'r) outcome" where
  "update_gem_type self hidden_gem_id gem_type' =
     (case db self hidden_gem_id of
        None \<Rightarrow> (Inl (ValueError (not_found_message hidden_gem_id)), self)
      | Some hidden_gem \<Rightarrow>
          (let hidden_gem' = hidden_gem\<lparr>gem_type := gem_type'\<rparr>
           in (Inr hidden_gem', self\<lparr>db := (db self)(hidden_gem_id \<mapsto> hidden_gem')\<rparr>)))"

definition update_times_visited ::
  "('f, 'r) GemRepository \<Rightarrow> int \<Rightarrow> int \<Rightarrow> (('f, 'r) HiddenGem, 'f, 'r) outcome" where
  "update_times_visited self hidden_gem_id times_visited' =
     (case db self hidden_gem_id of
        None \<Rightarrow> (Inl (ValueError (not_found_message hidden_gem_id)), self)
      | Some hidden_gem \<Rightarrow>
          (let hidden_gem' = hidden_gem\<lparr>times_visited := times_visited'\<rparr>
           in (Inr hidden_gem', self\<lparr>db := (db self)(hidden_gem_id \<mapsto> hidden_gem')\<rparr>)))"

definition update_user_created ::
  "('f, 'r) GemRepository \<Rightarrow> int \<Rightarrow> string \<Rightarrow> (('f, 'r) HiddenGem, 'f, 'r) outcome" where
  "update_user_created self hidden_gem_id user_created' =
     (case db self hidden_gem_id of
        None \<Rightarrow> (Inl (ValueError (not_found_message hidden_gem_id)), self)
      | Some hidden_gem \<Rightarrow>
          (let hidden_gem' = hidden_gem\<lparr>user_created := user_created'\<rparr>
           in (Inr hidden_gem', self\<lparr>db := (db self)(hidden_gem_id \<mapsto> hidden_gem')\<rparr>)))"

definition update_website_link ::
  "('f, 'r) GemRepository \<Rightarrow> int \<Rightarrow> string \<Rightarrow> (('f, 'r) HiddenGem, 'f, 'r) outcome" where
  "update_website_link self hidden_gem_id website_link' =
     (case db self hidden_gem_id of
        None \<Rightarrow> (Inl (ValueError (not_found_message hidden_gem_id)), self)
      | Some hidden_gem \<Rightarrow>
          (let hidden_gem' = hidden_gem\<lparr>website_link := website_link'\<rparr>
           in (Inr hidden_gem', self\<lparr>db := (db self)(hidden_gem_id \<mapsto> hidden_gem')\<rparr>)))"

definition update_accessibility ::
  "('f, 'r) GemRepository \<Rightarrow> int \<Rightarrow> bool list \<Rightarrow> (('f, 'r) HiddenGem, 'f, 'r) outcome" where
  "update_accessibility self hidden_gem_id accessibility' =
     (case db self hidden_gem_id of
        None \<Rightarrow> (Inl (ValueError (not_found_message hidden_gem_id)), self)
      | Some hidden_gem \<Rightarrow>
          (let hidden_gem' = hidden_gem\<lparr>accessibility := accessibility'\<rparr>
           in (Inr hidden_gem', self\<lparr>db := (db self)(hidden_gem_id \<mapsto> hidden_gem')\<rparr>)))"

definition update_gem_images ::
  "('f, 'r) GemRepository \<Rightarrow> int \<Rightarrow> string list \<Rightarrow> (('f, 'r) HiddenGem, 'f, 'r) outcome" where
  "update_gem_images self hidden_gem_id gem_images' =
     (case db self hidden_gem_id of
        None \<Rightarrow> (Inl (ValueError (not_found_message hidden_gem_id)), self)
      | Some hidden_gem \<Rightarrow>
          (let hidden_gem' = hidden_gem\<lparr>gem_images := gem_images'\<rparr>
           in (Inr hidden_gem', self\<lparr>db := (db self)(hidden_gem_id \<mapsto> hidden_gem')\<rparr>)))"

definition update_reviews ::
  "('f, 'r) GemRepository \<Rightarrow> int \<Rightarrow> 'r list \<Rightarrow> (('f, 'r) HiddenGem, 'f, 'r) outcome" where
  "update_reviews self hidden_gem_id reviews' =
     (case db self hidden_gem_id of
        None \<Rightarrow> (Inl (ValueError (not_found_message hidden_gem_id)), self)
      | Some hidden_gem \<Rightarrow>
          (let hidden_gem' = hidden_gem\<lparr>reviews := reviews'\<rparr>
           in (Inr hidden_gem', self\<lparr>db := (db self)(hidden_gem_id \<mapsto> hidden_gem')\<rparr>)))"

subsection \<open>The module's accessor\<close>

text \<open>
  \<open>get_gem_repository\<close> declares \<^verbatim>\<open>global _gem_repo\<close>, binds the class \<open>GemRepository\<close>,
  then reads \<open>_user_repo\<close>. That name is assigned in the body and is not declared
  global, so it is a local variable of the function; the function has no parameters, so
  no local but the class is bound when the \<^verbatim>\<open>if\<close> reads it. Reading an unbound local
  raises \<open>UnboundLocalError\<close>. The module's globals (\<open>_gemr_repo\<close> and the imports) are an
  argument; the body never reads them.
\<close>

datatype ('f, 'r) py_value = PyNone | PyClass | PyRepo "('f, 'r) GemRepository"

definition load_local :: "(string \<rightharpoonup> 'v) \<Rightarrow> string \<Rightarrow> py_exception + 'v" where
  "load_local locals v = (case locals v of None \<Rightarrow> Inl (UnboundLocalError v) | Some x \<Rightarrow> Inr x)"

definition get_gem_repository ::
  "(string \<rightharpoonup> ('f, 'r) py_value) \<Rightarrow> py_exception + ('f, 'r) py_value" where
  "get_gem_repository globals =
     (let locals = [''GemRepository'' \<mapsto> PyClass]
      in case load_local locals ''_user_repo'' of
           Inl e \<Rightarrow> Inl e
         | Inr v \<Rightarrow>
             (let locals' =
                (case v of
                   PyNone \<Rightarrow> locals(''_user_repo'' \<mapsto> PyRepo GemRepository_init)
                 | _ \<Rightarrow> locals)
              in load_local locals' ''_user_repo''))"

subsection \<open>Sequences of calls\<close>

text \<open>
  A client's calls on one repository, each with its arguments; \<open>CreateHiddenGem\<close> also
  carries the identifier that \<open>randint\<close> draws in that call.
\<close>

datatype ('f, 'r) call =
    GetAllHiddenGems
  | GetHiddenGemById int
  | CreateHiddenGem int string 'f 'f string int string string "bool list" "string list" "'r list"
  | GetName int
  | UpdateName int string
  | GetCordinates int
  | UpdateCordinates int 'f 'f
  | GetGemType int
  | UpdateGemType int string
  | GetTimesVisited int
  | UpdateTimesVisited int int
  | GetUserCreated int
  | UpdateUserCreated int string
  | GetWebsiteLink int
  | UpdateWebsiteLink int string
  | GetAccessibility int
  | UpdateAccessibility int "bool list"
  | GetGemImages int
  | UpdateGemImages int "string list"
  | GetReviews int
  | UpdateReviews int "'r list"
  | ClearDb

text \<open>The repository after a call, whether the call returned or raised.\<close>

fun exec :: "('f, 'r) call \<Rightarrow> ('f, 'r) GemRepository \<Rightarrow> ('f, 'r) GemRepository" where
  "exec GetAllHiddenGems self = snd (get_all_hidden_gems self)"
| "exec (GetHiddenGemById i) self = snd (get_hidden_gem_by_id self i)"
| "exec (CreateHiddenGem new_id n la lo t tv u w a im r) self =
     snd (create_hidden_gem self new_id n la lo t tv u w a im r)"
| "exec (GetName i) self = snd (get_name self i)"
| "exec (UpdateName i v) self = snd (update_name self i v)"
| "exec (GetCordinates i) self = snd (get_cordinates self i)"
| "exec (UpdateCordinates i la lo) self = snd (update_cordinates self i la lo)"
| "exec (GetGemType i) self = snd (get_gem_type self i)"
| "exec (UpdateGemType i v) self = snd (update_gem_type self i v)"
| "exec (GetTimesVisited i) self = snd (get_times_visited self i)"
| "exec (UpdateTimesVisited i v) self = snd (update_times_visited self i v)"
| "exec (GetUserCreated i) self = snd (get_user_created self i)"
| "exec (UpdateUserCreated i v) self = snd (update_user_created self i v)"
| "exec (GetWebsiteLink i) self = snd (get_website_link self i)"
| "exec (UpdateWebsiteLink i v) self = snd (update_website_link self i v)"
| "exec (GetAccessibility i) self = snd (get_accessibility self i)"
| "exec (UpdateAccessibility i v) self = snd (update_accessibility self i v)"
| "exec (GetGemImages i) self = snd (get_gem_images self i)"
| "exec (UpdateGemImages i v) self = snd (update_gem_images self i v)"
| "exec (GetReviews i) self = snd (get_reviews self i)"
| "exec (UpdateReviews i v) self = snd (update_reviews self i v)"
| "exec ClearDb self = snd (clear_db self)"

text \<open>Whether the identifier a call draws is one \<^verbatim>\<open>randint(0, 100_000)\<close> can return.\<close>

fun possible :: "('f, 'r) call \<Rightarrow> bool" where
  "possible (CreateHiddenGem new_id n la lo t tv u w a im r) = randint 0 100000 new_id"
| "possible c = True"

text \<open>The repository after a sequence of calls, first call first.\<close>

definition run :: "('f, 'r) call list \<Rightarrow> ('f, 'r) GemRepository \<Rightarrow> ('f, 'r) GemRepository" where
  "run cs self = fold exec cs self"

text \<open>The identifier a call adds to the dict, if it adds one.\<close>

fun created_id :: "('f, 'r) call \<Rightarrow> int option" where
  "created_id (CreateHiddenGem new_id n la lo t tv u w a im r) = Some new_id"
| "created_id c = None"

text \<open>
  A call that raised, left the repository as it was, and left no gem under the
  identifier it was given.
\<close>

definition rejects :: "('a, 'f, 'r) outcome \<Rightarrow> ('f, 'r) GemRepository \<Rightarrow> int \<Rightarrow> bool" where
  "rejects out self hidden_gem_id =
     (isl (fst out) \<and> snd out = self \<and> db (snd out) hidden_gem_id = None)"

subsection \<open>Concrete scenarios\<close>

text \<open>
  The spec's scenario: a fresh repository, one gem created ("Old Mill"), the draw of
  \<open>randint\<close> being 7. Floats are read as reals here and reviews as \<open>unit\<close>.
\<close>

definition old_mill_created :: "((real, unit) HiddenGem, real, unit) outcome" where
  "old_mill_created =
     create_hidden_gem GemRepository_init 7 ''Old Mill'' 51.5 (- 0.1) ''historic'' 0 ''alice'' ''''
       [True, False] [] []"

text \<open>Two creations on a fresh repository in which \<open>randint\<close> draws 7 both times.\<close>

definition first_create :: "((real, unit) HiddenGem, real, unit) outcome" where
  "first_create =
     create_hidden_gem GemRepository_init 7 ''A'' 1 2 ''park'' 0 ''alice'' '''' [] [] []"

definition second_create :: "((real, unit) HiddenGem, real, unit) outcome" where
  "second_create =
     create_hidden_gem (snd first_create) 7 ''B'' 3 4 ''cafe'' 0 ''bob'' '''' [] [] []"

definition two_creates :: "(real, unit) call list" where
  "two_creates =
     [CreateHiddenGem 7 ''A'' 1 2 ''park'' 0 ''alice'' '''' [] [] [],
      CreateHiddenGem 7 ''B'' 3 4 ''cafe'' 0 ''bob'' '''' [] [] []]"

definition gem_a :: "(real, unit) HiddenGem" where
  "gem_a = \<lparr>name = ''A'', gem_id = 7, latitude = 1, longitude = 2, gem_type = ''park'',
     times_visited = 0, user_created = ''alice'', website_link = '''', accessibility = [],
     gem_images = [], reviews = []\<rparr>"

definition gem_b :: "(real, unit) HiddenGem" where
  "gem_b = \<lparr>name = ''B'', gem_id = 7, latitude = 3, longitude = 4, gem_type = ''cafe'',
     times_visited = 0, user_created = ''bob'', website_link = '''', accessibility = [],
     gem_images = [], reviews = []\<rparr>"

text \<open>A longer session: two creations with different draws, an update and a failing getter.\<close>

definition session :: "(real, unit) call list" where
  "session =
     [CreateHiddenGem 0 ''A'' 1 2 ''park'' 0 ''alice'' '''' [] [] [],
      CreateHiddenGem 100000 ''B'' 3 4 ''cafe'' 0 ''bob'' '''' [] [] [],
      UpdateName 0 ''C'',
      GetName 5]"

section \<open>Properties\<close>

lemmas getter_defs = get_name_def get_cordinates_def get_gem_type_def get_times_visited_def
  get_user_created_def get_website_link_def get_accessibility_def get_gem_images_def
  get_reviews_def

lemmas update_defs = update_name_def update_cordinates_def update_gem_type_def
  update_times_visited_def update_user_created_def update_website_link_def
  update_accessibility_def update_gem_images_def update_reviews_def

subsection \<open>The formatted identifier determines the identifier\<close>

lemma digit_char_inj: "a < 10 \<Longrightarrow> b < 10 \<Longrightarrow> digit_char a = digit_char b \<Longrightarrow> a = b"
  unfolding digit_char_def by (subst (asm) nth_eq_iff_index_eq) simp_all

lemma digit_char_not_minus: "d < 10 \<Longrightarrow> digit_char d \<noteq> CHR ''-''"
proof -
  assume "d < 10"
  then have "digit_char d \<in> set ''0123456789''"
    unfolding digit_char_def by (intro nth_mem) simp
  then show ?thesis by auto
qed

lemma str_nat_nonempty: "str_nat n \<noteq> []" "[] \<noteq> str_nat n"
  by (subst str_nat.simps, simp)+

lemma hd_str_nat_not_minus: "hd (str_nat n) \<noteq> CHR ''-''"
proof (induction n rule: str_nat.induct)
  case (1 n)
  show ?case
  proof (cases "n < 10")
    case True
    then show ?thesis by (subst str_nat.simps) (simp add: digit_char_not_minus)
  next
    case False
    with 1 show ?thesis by (subst str_nat.simps) (simp add: str_nat_nonempty)
  qed
qed

lemma str_nat_inj: "str_nat m = str_nat n \<Longrightarrow> m = n"
proof (induction m arbitrary: n rule: str_nat.induct)
  case (1 m)
  show ?case
  proof (cases "m < 10")
    case m: True
    show ?thesis
    proof (cases "n < 10")
      case True
      with m "1.prems" show ?thesis
        by (simp add: str_nat.simps [of m] str_nat.simps [of n] digit_char_inj)
    next
      case False
      with m "1.prems" show ?thesis
        by (simp add: str_nat.simps [of m] str_nat.simps [of n] str_nat_nonempty)
    qed
  next
    case m: False
    show ?thesis
    proof (cases "n < 10")
      case True
      with m "1.prems" show ?thesis
        by (simp add: str_nat.simps [of m] str_nat.simps [of n] str_nat_nonempty)
    next
      case False
      with m "1.prems" have "str_nat (m div 10) = str_nat (n div 10)"
        and d: "digit_char (m mod 10) = digit_char (n mod 10)"
        by (simp_all add: str_nat.simps [of m] str_nat.simps [of n])
      with m "1.IH" have "m div 10 = n div 10" by simp
      moreover from d have "m mod 10 = n mod 10" by (intro digit_char_inj) simp_all
      ultimately show ?thesis by (metis div_mult_mod_eq)
    qed
  qed
qed

lemma str_int_inj: "str_int i = str_int j \<Longrightarrow> i = j"
proof -
  assume eq: "str_int i = str_int j"
  have neg: "hd (str_int k) = CHR ''-'' \<longleftrightarrow> k < 0" for k
    by (simp add: str_int_def hd_str_nat_not_minus)
  from eq neg [of i] neg [of j] have same: "i < 0 \<longleftrightarrow> j < 0" by simp
  show ?thesis
  proof (cases "i < 0")
    case True
    with same eq have "str_nat (nat (- i)) = str_nat (nat (- j))" by (simp add: str_int_def)
    then have "nat (- i) = nat (- j)" by (rule str_nat_inj)
    with True same show ?thesis by simp
  next
    case False
    with same eq have "str_nat (nat i) = str_nat (nat j)" by (simp add: str_int_def)
    then have "nat i = nat j" by (rule str_nat_inj)
    with False same show ?thesis by simp
  qed
qed

lemma not_found_message_inj: "not_found_message i = not_found_message j \<Longrightarrow> i = j"
  by (simp add: not_found_message_def str_int_inj)

subsection \<open>The keys of the dict along a sequence of calls\<close>

text \<open>
  No call but \<open>clear_db\<close> removes a key, and no call but \<open>create_hidden_gem\<close> adds one.
\<close>

lemma dom_exec:
  "c \<noteq> ClearDb \<Longrightarrow> dom (db (exec c self)) = dom (db self) \<union> set_option (created_id c)"
  by (cases c) (auto simp: getter_defs update_defs create_hidden_gem_def get_all_hidden_gems_def
      get_hidden_gem_by_id_def Let_def split: option.splits)

lemma dom_exec_ClearDb: "dom (db (exec ClearDb self)) = {}"
  by (simp add: clear_db_def)

lemma dom_run:
  "ClearDb \<notin> set cs \<Longrightarrow>
     dom (db (run cs self)) = dom (db self) \<union> set (List.map_filter created_id cs)"
proof (induction cs arbitrary: self)
  case Nil
  then show ?case by (simp add: run_def)
next
  case (Cons c cs)
  then have "c \<noteq> ClearDb" and "ClearDb \<notin> set cs" by auto
  with Cons.IH [of "exec c self"] show ?case
    by (cases "created_id c") (auto simp: run_def dom_exec)
qed

text \<open>
  Creations whose draws are pairwise different each add an entry: on a fresh
  repository, and with no \<open>clear_db\<close>, the dict then has one entry per creation.
\<close>

lemma distinct_draws_count:
  assumes "ClearDb \<notin> set cs" and "distinct (List.map_filter created_id cs)"
  shows "card (dom (db (run cs GemRepository_init))) = length (List.map_filter created_id cs)"
  using assms by (simp add: dom_run GemRepository_init_def distinct_card)

lemma clear_db_empties: "dom (db (snd (clear_db self))) = {}"
  by (simp add: clear_db_def)

text \<open>
  A creation whose draw is not a key of the dict returns an identifier no live gem has,
  and keeps every gem that was there.
\<close>

lemma create_fresh_draw:
  assumes "db self new_id = None"
  shows "db (snd (create_hidden_gem self new_id n la lo t tv u w a im r)) k
           = (if k = new_id then Some (HiddenGem_init n new_id la lo t tv u w a im r)
              else db self k)"
  by (simp add: create_hidden_gem_def Let_def)

lemma dom_exec_range:
  assumes "possible c" and "dom (db self) \<subseteq> {0..100000}"
  shows "dom (db (exec c self)) \<subseteq> {0..100000}"
proof (cases "c = ClearDb")
  case True
  then show ?thesis by (simp add: clear_db_def)
next
  case False
  from assms(1) have "set_option (created_id c) \<subseteq> {0..100000}"
    by (cases c) (simp_all add: randint_def)
  with assms(2) dom_exec [OF False, of self] show ?thesis by simp
qed

lemma dom_run_range:
  "list_all possible cs \<Longrightarrow> dom (db self) \<subseteq> {0..100000} \<Longrightarrow>
     dom (db (run cs self)) \<subseteq> {0..100000}"
proof (induction cs arbitrary: self)
  case Nil
  then show ?case by (simp add: run_def)
next
  case (Cons c cs)
  from Cons.prems have "dom (db (exec c self)) \<subseteq> {0..100000}"
    by (simp add: dom_exec_range)
  with Cons.prems Cons.IH [of "exec c self"] show ?case by (simp add: run_def)
qed

subsection \<open>Identifiers issued by creation\<close>

text \<open>
  C1: each identifier returned by \<open>create_hidden_gem\<close> should differ from every
  identifier issued before and still live. The code draws the identifier with
  \<open>randint(0, 100_000)\<close> and never compares it with the keys of the dict. On a fresh
  repository, two creations in which the draw is 7 both times: 7 is a possible draw, the
  first creation returns identifier 7, 7 is then a live key, and the second creation
  returns identifier 7 again.
\<close>

theorem create_reuses_live_identifier:
  "randint 0 100000 7
   \<and> map_sum id gem_id (fst first_create) = Inr 7
   \<and> 7 \<in> dom (db (snd first_create))
   \<and> map_sum id gem_id (fst second_create) = Inr 7"
  by (simp add: randint_def first_create_def second_create_def create_hidden_gem_def
      HiddenGem_init_def GemRepository_init_def Let_def)

text \<open>
  C3: after \<open>n\<close> creations and no clear, \<open>get_all_hidden_gems\<close> should return \<open>n\<close>
  entries. With the two creations above (both possible for \<open>randint\<close>, no \<open>clear_db\<close>)
  it returns a dict of one entry.
\<close>

theorem two_creates_one_entry:
  "list_all possible two_creates \<and> length two_creates = 2 \<and> ClearDb \<notin> set two_creates
   \<and> map_sum id (\<lambda>m. card (dom m)) (fst (get_all_hidden_gems (run two_creates GemRepository_init)))
       = Inr 1"
  by (simp add: two_creates_def randint_def run_def get_all_hidden_gems_def
      create_hidden_gem_def GemRepository_init_def Let_def)

text \<open>
  C4: a gem should be in the store exactly when \<open>create_hidden_gem\<close> returned it and no
  \<open>clear_db\<close> happened since, and only \<open>clear_db\<close> should remove or replace a gem. In the
  same scenario the first creation returns gem A and stores it under 7; the second
  creation returns gem B and stores it under 7; gem A is then no value of the dict,
  although \<open>clear_db\<close> was never called.
\<close>

theorem create_replaces_live_record:
  "fst first_create = Inr gem_a
   \<and> db (snd first_create) 7 = Some gem_a
   \<and> fst second_create = Inr gem_b
   \<and> db (snd second_create) 7 = Some gem_b
   \<and> gem_a \<notin> ran (db (snd second_create))"
  by (simp add: first_create_def second_create_def create_hidden_gem_def HiddenGem_init_def
      GemRepository_init_def gem_a_def gem_b_def Let_def)

text \<open>
  C10: in every repository reached from a fresh one by calls whose draws \<open>randint(0,
  100_000)\<close> can return, every key of the dict lies between 0 and 100000, so the dict
  never holds more than 100001 gems.
\<close>

theorem keys_in_randint_range:
  assumes "list_all possible cs"
  shows "dom (db (run cs GemRepository_init)) \<subseteq> {0..100000}
       \<and> card (dom (db (run cs GemRepository_init))) \<le> 100001"
proof -
  have sub: "dom (db (run cs (GemRepository_init :: ('a, 'b) GemRepository))) \<subseteq> {0..100000}"
    using assms by (rule dom_run_range) (simp add: GemRepository_init_def)
  have "card (dom (db (run cs (GemRepository_init :: ('a, 'b) GemRepository))))
          \<le> card {0..100000::int}"
    using sub by (intro card_mono) simp_all
  with sub show ?thesis by simp
qed

text \<open>The session of four calls is possible and ends with the keys 0 and 100000.\<close>

theorem keys_in_randint_range_witness:
  "list_all possible session
   \<and> dom (db (run session GemRepository_init)) = {0, 100000}
   \<and> dom (db (run session GemRepository_init)) \<subseteq> {0..100000}
   \<and> card (dom (db (run session GemRepository_init))) \<le> 100001"
  using keys_in_randint_range [of session]
  by (auto simp add: session_def run_def randint_def create_hidden_gem_def update_name_def
      get_name_def GemRepository_init_def Let_def)

subsection \<open>Lookup and creation\<close>

text \<open>
  C6: for all arguments, \<open>create_hidden_gem\<close> returns a gem, and
  \<open>get_hidden_gem_by_id\<close> on that gem's identifier, called right after, returns the same
  gem, whose name, latitude, longitude, type, visit count, creator, website link,
  accessibility, images and reviews are the arguments of the creation.
\<close>

theorem create_then_get_by_id:
  "\<exists>g self'. create_hidden_gem self new_id n la lo t tv u w a im r = (Inr g, self')
     \<and> get_hidden_gem_by_id self' (gem_id g) = (Inr (Some g), self')
     \<and> name g = n \<and> latitude g = la \<and> longitude g = lo \<and> gem_type g = t
     \<and> times_visited g = tv \<and> user_created g = u \<and> website_link g = w
     \<and> accessibility g = a \<and> gem_images g = im \<and> reviews g = r"
  by (simp add: create_hidden_gem_def HiddenGem_init_def get_hidden_gem_by_id_def Let_def)

text \<open>
  C7: in every repository and for every identifier, \<open>get_hidden_gem_by_id\<close> returns and
  never raises: its result is the gem stored under the identifier, or \<open>None\<close> when there
  is none, and the repository is unchanged. A gem stored under the identifier is
  returned; on the fresh repository, identifier 999999 gives \<open>None\<close>.
\<close>

theorem get_hidden_gem_by_id_never_raises:
  "get_hidden_gem_by_id self hidden_gem_id = (Inr (db self hidden_gem_id), self)
   \<and> get_hidden_gem_by_id (self\<lparr>db := (db self)(hidden_gem_id \<mapsto> g)\<rparr>) hidden_gem_id
       = (Inr (Some g), self\<lparr>db := (db self)(hidden_gem_id \<mapsto> g)\<rparr>)
   \<and> get_hidden_gem_by_id (GemRepository_init :: ('f, 'r) GemRepository) 999999
       = (Inr None, GemRepository_init)"
  by (simp add: get_hidden_gem_by_id_def GemRepository_init_def)

subsection \<open>Updates and getters on a live identifier\<close>

text \<open>
  C5: for a live identifier \<open>i\<close> holding gem \<open>g\<close>, every field and every value: the update
  of the field returns the gem with that field replaced, the getter of the field then
  returns the new value, and the dict after the update is the old dict with \<open>i\<close> holding
  \<open>g\<close> in which only that field is replaced (so every other field of the gem, and every
  other gem, is unchanged). \<open>update_cordinates\<close> replaces latitude and longitude together.
\<close>

theorem update_then_get:
  assumes "db self i = Some g"
  shows "fst (update_name self i v1) = Inr (g\<lparr>name := v1\<rparr>)
       \<and> fst (get_name (snd (update_name self i v1)) i) = Inr v1
       \<and> db (snd (update_name self i v1)) = (db self)(i \<mapsto> g\<lparr>name := v1\<rparr>)
       \<and> fst (update_cordinates self i la lo) = Inr (g\<lparr>latitude := la, longitude := lo\<rparr>)
       \<and> fst (get_cordinates (snd (update_cordinates self i la lo)) i) = Inr (la, lo)
       \<and> db (snd (update_cordinates self i la lo))
           = (db self)(i \<mapsto> g\<lparr>latitude := la, longitude := lo\<rparr>)
       \<and> fst (update_gem_type self i v2) = Inr (g\<lparr>gem_type := v2\<rparr>)
       \<and> fst (get_gem_type (snd (update_gem_type self i v2)) i) = Inr v2
       \<and> db (snd (update_gem_type self i v2)) = (db self)(i \<mapsto> g\<lparr>gem_type := v2\<rparr>)
       \<and> fst (update_times_visited self i v3) = Inr (g\<lparr>times_visited := v3\<rparr>)
       \<and> fst (get_times_visited (snd (update_times_visited self i v3)) i) = Inr v3
       \<and> db (snd (update_times_visited self i v3)) = (db self)(i \<mapsto> g\<lparr>times_visited := v3\<rparr>)
       \<and> fst (update_user_created self i v4) = Inr (g\<lparr>user_created := v4\<rparr>)
       \<and> fst (get_user_created (snd (update_user_created self i v4)) i) = Inr v4
       \<and> db (snd (update_user_created self i v4)) = (db self)(i \<mapsto> g\<lparr>user_created := v4\<rparr>)
       \<and> fst (update_website_link self i v5) = Inr (g\<lparr>website_link := v5\<rparr>)
       \<and> fst (get_website_link (snd (update_website_link self i v5)) i) = Inr v5
       \<and> db (snd (update_website_link self i v5)) = (db self)(i \<mapsto> g\<lparr>website_link := v5\<rparr>)
       \<and> fst (update_accessibility self i v6) = Inr (g\<lparr>accessibility := v6\<rparr>)
       \<and> fst (get_accessibility (snd (update_accessibility self i v6)) i) = Inr v6
       \<and> db (snd (update_accessibility self i v6)) = (db self)(i \<mapsto> g\<lparr>accessibility := v6\<rparr>)
       \<and> fst (update_gem_images self i v7) = Inr (g\<lparr>gem_images := v7\<rparr>)
       \<and> fst (get_gem_images (snd (update_gem_images self i v7)) i) = Inr v7
       \<and> db (snd (update_gem_images self i v7)) = (db self)(i \<mapsto> g\<lparr>gem_images := v7\<rparr>)
       \<and> fst (update_reviews self i v8) = Inr (g\<lparr>reviews := v8\<rparr>)
       \<and> fst (get_reviews (snd (update_reviews self i v8)) i) = Inr v8
       \<and> db (snd (update_reviews self i v8)) = (db self)(i \<mapsto> g\<lparr>reviews := v8\<rparr>)"
  using assms by (simp add: update_defs getter_defs Let_def)

text \<open>
  The spec's scenario: "Old Mill" is created with identifier 7; after
  \<open>update_name(7, "Old Windmill")\<close>, \<open>get_name(7)\<close> returns "Old Windmill" and
  \<open>get_hidden_gem_by_id(7)\<close> still shows latitude 51.5.
\<close>

theorem update_then_get_witness:
  "map_sum id gem_id (fst old_mill_created) = Inr 7
   \<and> map_option name (db (snd old_mill_created) 7) = Some ''Old Mill''
   \<and> fst (get_name (snd (update_name (snd old_mill_created) 7 ''Old Windmill'')) 7)
       = Inr ''Old Windmill''
   \<and> map_sum id (map_option latitude)
        (fst (get_hidden_gem_by_id (snd (update_name (snd old_mill_created) 7 ''Old Windmill'')) 7))
       = Inr (Some 51.5)"
  using update_then_get [of "snd old_mill_created" 7
      "HiddenGem_init ''Old Mill'' 7 51.5 (- 0.1) ''historic'' 0 ''alice'' '''' [True, False] [] []"
      "''Old Windmill''"]
  by (simp add: old_mill_created_def create_hidden_gem_def HiddenGem_init_def
      GemRepository_init_def get_hidden_gem_by_id_def Let_def)

subsection \<open>Updates and getters on a missing identifier\<close>

text \<open>
  C2, as stated, fails: on the fresh repository, \<open>update_name(5, "x")\<close> raises
  \<open>ValueError\<close> with the message "hidden gem with id 5 not found", and \<open>get_name(5)\<close>
  raises \<open>AttributeError\<close>; neither is an instance of a class \<open>NotFoundError\<close>.
\<close>

theorem missing_id_not_NotFoundError:
  "fst (update_name (GemRepository_init :: (real, unit) GemRepository) 5 ''x'')
     = Inl (ValueError ''hidden gem with id 5 not found'')
   \<and> \<not> isinstance (ValueError ''hidden gem with id 5 not found'') ''NotFoundError''
   \<and> fst (get_name (GemRepository_init :: (real, unit) GemRepository) 5)
     = Inl (AttributeError ''name'')
   \<and> \<not> isinstance (AttributeError ''name'') ''NotFoundError''"
  by (simp add: update_name_def get_name_def GemRepository_init_def not_found_message_def
      str_int_def str_nat.simps digit_char_def isinstance_def)

text \<open>
  C2, amended: for every identifier \<open>i\<close> not mapped to a gem, each of the nine update
  operations raises \<open>ValueError\<close> with the message "hidden gem with id \<open>i\<close> not found",
  \<open>i\<close> written in decimal; the message determines the identifier.
\<close>

theorem update_missing_id_raises_ValueError:
  assumes "db self i = None"
  shows "fst (update_name self i v1) = Inl (ValueError (not_found_message i))
       \<and> fst (update_cordinates self i la lo) = Inl (ValueError (not_found_message i))
       \<and> fst (update_gem_type self i v2) = Inl (ValueError (not_found_message i))
       \<and> fst (update_times_visited self i v3) = Inl (ValueError (not_found_message i))
       \<and> fst (update_user_created self i v4) = Inl (ValueError (not_found_message i))
       \<and> fst (update_website_link self i v5) = Inl (ValueError (not_found_message i))
       \<and> fst (update_accessibility self i v6) = Inl (ValueError (not_found_message i))
       \<and> fst (update_gem_images self i v7) = Inl (ValueError (not_found_message i))
       \<and> fst (update_reviews self i v8) = Inl (ValueError (not_found_message i))
       \<and> isinstance (ValueError (not_found_message i)) ''ValueError''
       \<and> not_found_message i = ''hidden gem with id '' @ str_int i @ '' not found''
       \<and> (not_found_message i = not_found_message j) = (i = j)"
  using assms not_found_message_inj [of i j]
  by (auto simp add: update_defs isinstance_def not_found_message_def)

theorem update_missing_id_raises_ValueError_witness:
  "db (GemRepository_init :: (real, unit) GemRepository) 5 = None
   \<and> fst (update_name (GemRepository_init :: (real, unit) GemRepository) 5 ''x'')
       = Inl (ValueError ''hidden gem with id 5 not found'')
   \<and> fst (update_cordinates (GemRepository_init :: (real, unit) GemRepository) 5 1 2)
       = Inl (ValueError ''hidden gem with id 5 not found'')"
  using update_missing_id_raises_ValueError
    [of "GemRepository_init :: (real, unit) GemRepository" 5 "''x''" 1 2]
  by (simp add: GemRepository_init_def not_found_message_def str_int_def str_nat.simps
      digit_char_def)

text \<open>
  C8: for every identifier \<open>i\<close> not mapped to a gem, each of the nine update operations
  raises, leaves the repository exactly as it was, and leaves no gem under \<open>i\<close>.
\<close>

theorem update_missing_id_leaves_repository:
  assumes "db self i = None"
  shows "rejects (update_name self i v1) self i
       \<and> rejects (update_cordinates self i la lo) self i
       \<and> rejects (update_gem_type self i v2) self i
       \<and> rejects (update_times_visited self i v3) self i
       \<and> rejects (update_user_created self i v4) self i
       \<and> rejects (update_website_link self i v5) self i
       \<and> rejects (update_accessibility self i v6) self i
       \<and> rejects (update_gem_images self i v7) self i
       \<and> rejects (update_reviews self i v8) self i"
  using assms by (simp add: update_defs rejects_def)

text \<open>
  In the repository that holds "Old Mill" under 7, updates on identifier 8 are rejected
  and 7 stays the only key.
\<close>

theorem update_missing_id_leaves_repository_witness:
  "db (snd old_mill_created) 8 = None
   \<and> rejects (update_name (snd old_mill_created) 8 ''x'') (snd old_mill_created) 8
   \<and> rejects (update_cordinates (snd old_mill_created) 8 1 2) (snd old_mill_created) 8
   \<and> dom (db (snd (update_name (snd old_mill_created) 8 ''x''))) = {7}"
  using update_missing_id_leaves_repository [of "snd old_mill_created" 8 "''x''" 1 2]
  by (simp add: old_mill_created_def create_hidden_gem_def GemRepository_init_def Let_def
      update_name_def)

subsection \<open>The accessor\<close>

text \<open>
  C9: whatever the module's globals hold, \<open>get_gem_repository\<close> raises before it
  returns: the exception is the \<open>UnboundLocalError\<close> for \<open>_user_repo\<close>, an instance of
  \<open>NameError\<close>, so no call returns a \<open>GemRepository\<close>.
\<close>

theorem get_gem_repository_raises_NameError:
  "get_gem_repository globals = Inl (UnboundLocalError ''_user_repo'')
   \<and> isinstance (UnboundLocalError ''_user_repo'') ''NameError''"
  by (simp add: get_gem_repository_def load_local_def isinstance_def)

end
